theory Spec2Isabelle
  imports Complex_Main
begin

section \<open>JavaScript values\<close>

text \<open>
  The server is JavaScript on Express. Request bodies arrive as parsed JSON, so a field
  of a body can hold any JSON value, or be absent (\<open>undefined\<close>). Numbers are modelled
  with exact rational arithmetic plus the three non-finite values of the language;
  the rounding of IEEE doubles is not modelled. Strings are read as ASCII text.
\<close>

datatype jsnum = Num rat | PInf | NInf | NaN

datatype jsval =
    JUndefined
  | JNull
  | JBool bool
  | JNum jsnum
  | JStr string
  | JArr "jsval list"
  | JObj "(string \<times> jsval) list"

text \<open>\<open>x > 0\<close> and \<open>x <= 0\<close> on numbers: both are false on NaN.\<close>

fun num_gt0 :: "jsnum \<Rightarrow> bool" where
  "num_gt0 (Num r) = (0 < r)"
| "num_gt0 PInf = True"
| "num_gt0 NInf = False"
| "num_gt0 NaN = False"

fun num_le0 :: "jsnum \<Rightarrow> bool" where
  "num_le0 (Num r) = (r \<le> 0)"
| "num_le0 PInf = False"
| "num_le0 NInf = True"
| "num_le0 NaN = False"

text \<open>ToBoolean: what \<open>!x\<close>, \<open>x || y\<close> and \<open>Boolean(x)\<close> test.\<close>

fun truthy :: "jsval \<Rightarrow> bool" where
  "truthy JUndefined = False"
| "truthy JNull = False"
| "truthy (JBool b) = b"
| "truthy (JNum (Num r)) = (r \<noteq> 0)"
| "truthy (JNum PInf) = True"
| "truthy (JNum NInf) = True"
| "truthy (JNum NaN) = False"
| "truthy (JStr s) = (s \<noteq> [])"
| "truthy (JArr xs) = True"
| "truthy (JObj kvs) = True"

definition falsy :: "jsval \<Rightarrow> bool" where
  "falsy v = (\<not> truthy v)"

subsection \<open>Strings\<close>

text \<open>The ASCII white space that \<open>String.prototype.trim\<close> strips: TAB, LF, VT, FF, CR, SPACE.\<close>

definition is_ws :: "char \<Rightarrow> bool" where
  "is_ws c = (of_char c \<in> {9, 10, 11, 12, 13, 32 :: nat})"

definition trim :: "string \<Rightarrow> string" where
  "trim s = rev (dropWhile is_ws (rev (dropWhile is_ws s)))"

text \<open>\<open>toLowerCase\<close> on ASCII: the letters A to Z are mapped, every other character is kept.\<close>

definition lower_char :: "char \<Rightarrow> char" where
  "lower_char c =
     (case map_of (zip ''ABCDEFGHIJKLMNOPQRSTUVWXYZ'' ''abcdefghijklmnopqrstuvwxyz'') c of
        None \<Rightarrow> c
      | Some d \<Rightarrow> d)"

definition toLowerCase :: "string \<Rightarrow> string" where
  "toLowerCase s = map lower_char s"

text \<open>\<open>s.includes(t)\<close>: \<open>t\<close> occurs in \<open>s\<close> as a contiguous run.\<close>

fun starts_with :: "string \<Rightarrow> string \<Rightarrow> bool" where
  "starts_with s [] = True"
| "starts_with [] (c # t) = False"
| "starts_with (d # s) (c # t) = (d = c \<and> starts_with s t)"

fun includes_str :: "string \<Rightarrow> string \<Rightarrow> bool" where
  "includes_str [] t = (t = [])"
| "includes_str (d # s) t = (starts_with (d # s) t \<or> includes_str s t)"

subsection \<open>Request bodies\<close>

text \<open>
  A body is the property list of the parsed JSON object. Reading a property that the
  object lacks gives \<open>undefined\<close>; this is what the destructuring
  \<open>const { name, description, price, category } = req.body\<close> does. (A JSON array as body
  has none of the properties read here and behaves as the empty object.)
\<close>

type_synonym body = "(string \<times> jsval) list"

definition get_prop :: "body \<Rightarrow> string \<Rightarrow> jsval" where
  "get_prop b k = (case map_of b k of None \<Rightarrow> JUndefined | Some v \<Rightarrow> v)"

section \<open>Errors\<close>

text \<open>
  The three error classes of the server, each with its message, and the TypeError the
  engine raises when a method is called on a value that has none.
\<close>

datatype error =
    NotFoundError string
  | ValidationError string
  | AuthenticationError string
  | TypeError string

fun statusCode :: "error \<Rightarrow> nat option" where
  "statusCode (NotFoundError m) = Some 404"
| "statusCode (ValidationError m) = Some 400"
| "statusCode (AuthenticationError m) = Some 401"
| "statusCode (TypeError m) = None"

fun message :: "error \<Rightarrow> string" where
  "message (NotFoundError m) = m"
| "message (ValidationError m) = m"
| "message (AuthenticationError m) = m"
| "message (TypeError m) = m"

section \<open>Validation middleware\<close>

text \<open>
  \<^verbatim>\<open>
  const { name, description, price, category } = req.body;
  if (!name || !description || !price || !category) throw new ValidationError(...);
  if (typeof name !== 'string' || name.trim().length === 0) throw new ValidationError(...);
  if (typeof price !== 'number' || price <= 0) throw new ValidationError(...);
  next();
  \<close>
  The middleware either throws or hands the request on; the model returns the error or
  the body that the next handler sees.
\<close>

fun name_bad :: "jsval \<Rightarrow> bool" where
  "name_bad (JStr s) = (length (trim s) = 0)"
| "name_bad v = True"

fun price_bad :: "jsval \<Rightarrow> bool" where
  "price_bad (JNum n) = num_le0 n"
| "price_bad v = True"

definition validateProductMiddleware :: "body \<Rightarrow> error + body" where
  "validateProductMiddleware b =
     (let name = get_prop b ''name''; description = get_prop b ''description'';
          price = get_prop b ''price''; category = get_prop b ''category''
      in if falsy name \<or> falsy description \<or> falsy price \<or> falsy category
         then Inl (ValidationError ''Missing required fields: name, description, price, category'')
         else if name_bad name
         then Inl (ValidationError ''Name must be a non-empty string'')
         else if price_bad price
         then Inl (ValidationError ''Price must be a positive number'')
         else Inr b)"


section \<open>The product store\<close>

text \<open>
  A product as the handlers build it. The id is a string; the price is the number the
  validation middleware let through. The store is the array \<open>products\<close>, in insertion
  order.
\<close>

record product =
  pid :: string
  name :: string
  description :: string
  price :: jsnum
  category :: string
  inStock :: bool

text \<open>The initial value of \<open>products\<close>.\<close>

definition products :: "product list" where
  "products =
     [\<lparr>pid = ''1'', name = ''Laptop'',
       description = ''High-performance laptop with 16GB RAM'',
       price = Num 1200, category = ''electronics'', inStock = True\<rparr>,
      \<lparr>pid = ''2'', name = ''Smartphone'',
       description = ''Latest model with 128GB storage'',
       price = Num 800, category = ''electronics'', inStock = True\<rparr>,
      \<lparr>pid = ''3'', name = ''Coffee Maker'',
       description = ''Programmable coffee maker with timer'',
       price = Num 50, category = ''kitchen'', inStock = False\<rparr>]"

section \<open>Responses\<close>

record pagination =
  page :: int
  limit :: int
  totalPages :: jsnum
  hasNext :: bool
  hasPrev :: bool

record priceStats =
  highest :: jsnum
  lowest :: jsnum
  average :: jsnum

text \<open>
  \<open>categories\<close> holds the own properties of the object \<open>stats.categories\<close>, in the order
  they were created.
\<close>

record stats =
  totalProducts :: nat
  totalInStock :: nat
  totalOutOfStock :: nat
  categories :: "(string \<times> jsnum) list"
  priceStats :: priceStats

text \<open>
  One constructor for each JSON envelope the server writes, with its HTTP status where
  the handler sets one:
  \<^item> \<open>Welcome\<close>: the payload of \<open>GET /\<close>;
  \<^item> \<open>ProductList count pagination data\<close>: \<open>{success: true, count, pagination, data}\<close>;
  \<^item> \<open>SearchResults query count data\<close>: \<open>{success: true, query, count, data}\<close>;
  \<^item> \<open>StatsData stats\<close>: \<open>{success: true, data: stats}\<close>;
  \<^item> \<open>ProductData status product\<close>: \<open>{success: true, data: product}\<close>;
  \<^item> \<open>Message text\<close>: \<open>{success: true, message}\<close>, status 200;
  \<^item> \<open>ErrorEnvelope status text\<close>: \<open>{success: false, error}\<close>, written by the error
    handler of the server;
  \<^item> \<open>DefaultErrorPage status\<close>: the HTML page that Express itself writes for an error
    that no error handler took.
\<close>

datatype response =
    Welcome
  | ProductList nat pagination "product list"
  | SearchResults string nat "product list"
  | StatsData stats
  | ProductData nat product
  | Message string
  | ErrorEnvelope nat string
  | DefaultErrorPage nat

text \<open>
  What a middleware or handler does with a request: pass it on (\<open>next()\<close>), answer it,
  or throw.
\<close>

datatype outcome = Next | Respond response | Throw error

section \<open>Query strings\<close>

text \<open>
  The query of a request, as the pairs of its parameters; each value is a string. A
  parameter that is absent reads as \<open>undefined\<close>. (Repeated or bracketed parameters, which
  the query parser turns into arrays and objects, are outside the model.)
\<close>

type_synonym query = "(string \<times> string) list"

text \<open>\<open>if (req.query.k)\<close>: the parameter is present and not the empty string.\<close>

definition given :: "query \<Rightarrow> string \<Rightarrow> string option" where
  "given q k = (case map_of q k of None \<Rightarrow> None | Some s \<Rightarrow> if s = [] then None else Some s)"

subsection \<open>parseInt\<close>

definition digit_val :: "char \<Rightarrow> nat option" where
  "digit_val c =
     map_of [(CHR ''0'', 0), (CHR ''1'', 1), (CHR ''2'', 2), (CHR ''3'', 3), (CHR ''4'', 4),
             (CHR ''5'', 5), (CHR ''6'', 6), (CHR ''7'', 7), (CHR ''8'', 8), (CHR ''9'', 9),
             (CHR ''a'', 10), (CHR ''b'', 11), (CHR ''c'', 12), (CHR ''d'', 13),
             (CHR ''e'', 14), (CHR ''f'', 15)] (lower_char c)"

fun parse_digits :: "nat \<Rightarrow> string \<Rightarrow> nat option \<Rightarrow> nat option" where
  "parse_digits radix [] acc = acc"
| "parse_digits radix (c # cs) acc =
     (case digit_val c of
        None \<Rightarrow> acc
      | Some d \<Rightarrow>
          if d < radix
          then parse_digits radix cs (Some ((case acc of None \<Rightarrow> 0 | Some a \<Rightarrow> a * radix) + d))
          else acc)"

text \<open>
  \<open>parseInt(s)\<close> with no radix: leading white space is skipped, then an optional sign,
  then \<open>0x\<close> or \<open>0X\<close> selects radix 16, then the longest run of digits is read. No
  digit gives NaN, here \<open>None\<close>. The result is an unbounded integer.
\<close>

definition parseInt :: "string \<Rightarrow> int option" where
  "parseInt s =
     (let s1 = dropWhile is_ws s;
          sign = (case s1 of c # t \<Rightarrow> if c = CHR ''-'' then - 1 else 1 | [] \<Rightarrow> (1 :: int));
          s2 = (case s1 of c # t \<Rightarrow> if c = CHR ''-'' \<or> c = CHR ''+'' then t else s1 | [] \<Rightarrow> s1);
          hex = (case s2 of c # x # t \<Rightarrow> c = CHR ''0'' \<and> (x = CHR ''x'' \<or> x = CHR ''X'') | _ \<Rightarrow> False);
          r = (if hex then parse_digits 16 (drop 2 s2) None else parse_digits 10 s2 None)
      in map_option (\<lambda>n. sign * int n) r)"

text \<open>\<open>parseInt(req.query.k) || d\<close>: NaN and 0 are falsy and give the default.\<close>

definition int_param :: "query \<Rightarrow> string \<Rightarrow> int \<Rightarrow> int" where
  "int_param q k d =
     (case map_of q k of
        None \<Rightarrow> d
      | Some s \<Rightarrow> (case parseInt s of None \<Rightarrow> d | Some n \<Rightarrow> if n = 0 then d else n))"


section \<open>Arithmetic on numbers\<close>

fun num_add :: "jsnum \<Rightarrow> jsnum \<Rightarrow> jsnum" where
  "num_add (Num a) (Num b) = Num (a + b)"
| "num_add NaN y = NaN"
| "num_add x NaN = NaN"
| "num_add PInf NInf = NaN"
| "num_add NInf PInf = NaN"
| "num_add PInf y = PInf"
| "num_add x PInf = PInf"
| "num_add NInf y = NInf"
| "num_add x NInf = NInf"

text \<open>
  Division. The only divisors that can be zero in this program are array lengths,
  so a zero divisor is the positive zero.
\<close>

fun num_div :: "jsnum \<Rightarrow> jsnum \<Rightarrow> jsnum" where
  "num_div (Num a) (Num b) =
     (if b = 0 then (if a = 0 then NaN else if 0 < a then PInf else NInf) else Num (a / b))"
| "num_div NaN y = NaN"
| "num_div x NaN = NaN"
| "num_div (Num a) y = Num 0"
| "num_div PInf (Num b) = (if 0 \<le> b then PInf else NInf)"
| "num_div NInf (Num b) = (if 0 \<le> b then NInf else PInf)"
| "num_div x y = NaN"

fun math_ceil :: "jsnum \<Rightarrow> jsnum" where
  "math_ceil (Num r) = Num (of_int \<lceil>r\<rceil>)"
| "math_ceil x = x"

text \<open>
  \<open>Math.max(...xs)\<close> and \<open>Math.min(...xs)\<close>: NaN if any argument is NaN; with no argument,
  \<open>-Infinity\<close> and \<open>Infinity\<close>.
\<close>

fun num_max2 :: "jsnum \<Rightarrow> jsnum \<Rightarrow> jsnum" where
  "num_max2 (Num a) (Num b) = Num (max a b)"
| "num_max2 NaN y = NaN"
| "num_max2 x NaN = NaN"
| "num_max2 PInf y = PInf"
| "num_max2 x PInf = PInf"
| "num_max2 NInf y = y"
| "num_max2 x NInf = x"

fun num_min2 :: "jsnum \<Rightarrow> jsnum \<Rightarrow> jsnum" where
  "num_min2 (Num a) (Num b) = Num (min a b)"
| "num_min2 NaN y = NaN"
| "num_min2 x NaN = NaN"
| "num_min2 NInf y = NInf"
| "num_min2 x NInf = NInf"
| "num_min2 PInf y = y"
| "num_min2 x PInf = x"

definition math_max :: "jsnum list \<Rightarrow> jsnum" where
  "math_max xs = foldl num_max2 NInf xs"

definition math_min :: "jsnum list \<Rightarrow> jsnum" where
  "math_min xs = foldl num_min2 PInf xs"

section \<open>Array operations\<close>

text \<open>
  \<open>xs.slice(start, stop)\<close>: a negative index counts from the end, and both indices are
  clamped to the array.
\<close>

definition slice :: "'a list \<Rightarrow> int \<Rightarrow> int \<Rightarrow> 'a list" where
  "slice xs start stop =
     (let n = int (length xs);
          k = (if start < 0 then max (n + start) 0 else min start n);
          fin = (if stop < 0 then max (n + stop) 0 else min stop n)
      in take (nat (fin - k)) (drop (nat k) xs))"

text \<open>\<open>xs.findIndex(P)\<close>: the first index whose element satisfies \<open>P\<close>; \<open>-1\<close> is \<open>None\<close>.\<close>

fun findIndex :: "('a \<Rightarrow> bool) \<Rightarrow> 'a list \<Rightarrow> nat option" where
  "findIndex P [] = None"
| "findIndex P (x # xs) =
     (if P x then Some 0 else map_option Suc (findIndex P xs))"

text \<open>\<open>xs.splice(i, 1)\<close>: the element at index \<open>i\<close> is removed.\<close>

definition splice1 :: "'a list \<Rightarrow> nat \<Rightarrow> 'a list" where
  "splice1 xs i = take i xs @ drop (Suc i) xs"

section \<open>Handlers\<close>

subsection \<open>GET /api/products\<close>

definition filterCategory :: "query \<Rightarrow> product list \<Rightarrow> product list" where
  "filterCategory q xs =
     (case given q ''category'' of
        None \<Rightarrow> xs
      | Some c \<Rightarrow> filter (\<lambda>p. toLowerCase (category p) = toLowerCase c) xs)"

definition filterInStock :: "query \<Rightarrow> product list \<Rightarrow> product list" where
  "filterInStock q xs =
     (case given q ''inStock'' of
        None \<Rightarrow> xs
      | Some s \<Rightarrow> filter (\<lambda>p. inStock p = (toLowerCase s = ''true'')) xs)"

definition filterSearch :: "query \<Rightarrow> product list \<Rightarrow> product list" where
  "filterSearch q xs =
     (case given q ''search'' of
        None \<Rightarrow> xs
      | Some t \<Rightarrow> filter (\<lambda>p. includes_str (toLowerCase (name p)) (toLowerCase t)) xs)"

text \<open>The filters in the order of the handler: category, then inStock, then search.\<close>

definition filteredProducts :: "query \<Rightarrow> product list \<Rightarrow> product list" where
  "filteredProducts q ps = filterSearch q (filterInStock q (filterCategory q ps))"

definition getProducts :: "query \<Rightarrow> product list \<Rightarrow> outcome \<times> product list" where
  "getProducts q ps =
     (let fs = filteredProducts q ps;
          pg = int_param q ''page'' 1;
          lim = int_param q ''limit'' 10;
          startIndex = (pg - 1) * lim;
          endIndex = startIndex + lim;
          paginatedProducts = slice fs startIndex endIndex
      in (Respond (ProductList (length fs)
            \<lparr>page = pg, limit = lim,
             totalPages = math_ceil (num_div (Num (of_nat (length fs))) (Num (of_int lim))),
             hasNext = (endIndex < int (length fs)),
             hasPrev = (0 < startIndex)\<rparr>
            paginatedProducts), ps))"

subsection \<open>GET /api/products/search\<close>

definition searchProducts :: "query \<Rightarrow> product list \<Rightarrow> outcome \<times> product list" where
  "searchProducts q ps =
     (case given q ''q'' of
        None \<Rightarrow> (Throw (ValidationError
            (''Search query parameter '' @ [CHR 0x22] @ ''q'' @ [CHR 0x22] @ '' is required'')), ps)
      | Some t \<Rightarrow>
          (let searchResults = filter (\<lambda>p. includes_str (toLowerCase (name p)) (toLowerCase t)) ps
           in (Respond (SearchResults t (length searchResults) searchResults), ps)))"

subsection \<open>GET /api/products/stats\<close>

text \<open>
  \<open>stats.categories\<close> starts as the empty object literal, so reading a key it does not own
  finds the properties that every object inherits from \<open>Object.prototype\<close>. These are
  their names.
\<close>

definition object_prototype_keys :: "string list" where
  "object_prototype_keys =
     [''constructor'', ''__defineGetter__'', ''__defineSetter__'', ''hasOwnProperty'',
      ''__lookupGetter__'', ''__lookupSetter__'', ''isPrototypeOf'',
      ''propertyIsEnumerable'', ''toString'', ''valueOf'', ''__proto__'',
      ''toLocaleString'']"

fun set_own :: "(string \<times> jsnum) list \<Rightarrow> string \<Rightarrow> jsnum \<Rightarrow> (string \<times> jsnum) list" where
  "set_own [] k v = [(k, v)]"
| "set_own ((k', v') # kvs) k v =
     (if k' = k then (k, v) # kvs else (k', v') # set_own kvs k v)"

text \<open>
  One round of
  \<^verbatim>\<open>
  if (!stats.categories[c]) stats.categories[c] = 0;
  stats.categories[c]++;
  \<close>
  An own count that is 0 or NaN is falsy and is reset to 0 first. A key that is not
  owned and not inherited reads as \<open>undefined\<close> and starts at 0. A key that is inherited
  reads as a function (or, for \<open>__proto__\<close>, as the prototype object), which is truthy
  and is not reset; \<open>++\<close> then converts it to NaN and stores NaN as an own property,
  except for \<open>__proto__\<close>, whose setter ignores a number.
\<close>

definition count_category :: "(string \<times> jsnum) list \<Rightarrow> string \<Rightarrow> (string \<times> jsnum) list" where
  "count_category obj c =
     (case map_of obj c of
        Some v \<Rightarrow> set_own obj c (num_add (if truthy (JNum v) then v else Num 0) (Num 1))
      | None \<Rightarrow>
          if c \<in> set object_prototype_keys
          then (if c = ''__proto__'' then obj else set_own obj c NaN)
          else set_own obj c (Num 1))"

definition getStats :: "product list \<Rightarrow> outcome \<times> product list" where
  "getStats ps =
     (Respond (StatsData
        \<lparr>totalProducts = length ps,
         totalInStock = length (filter (\<lambda>p. inStock p) ps),
         totalOutOfStock = length (filter (\<lambda>p. \<not> inStock p) ps),
         categories = foldl count_category [] (map category ps),
         priceStats =
           \<lparr>highest = math_max (map price ps),
            lowest = math_min (map price ps),
            average = num_div (foldl (\<lambda>sum p. num_add sum (price p)) (Num 0) ps)
                        (Num (of_nat (length ps)))\<rparr>\<rparr>), ps)"

subsection \<open>GET /api/products/:id\<close>

definition getProduct :: "string \<Rightarrow> product list \<Rightarrow> outcome \<times> product list" where
  "getProduct i ps =
     (case find (\<lambda>p. pid p = i) ps of
        None \<Rightarrow> (Throw (NotFoundError ''Product not found''), ps)
      | Some p \<Rightarrow> (Respond (ProductData 200 p), ps))"


subsection \<open>POST /api/products\<close>

text \<open>
  \<open>v.trim()\<close> on a field of the body. A string is trimmed. Any other JSON value has no
  method \<open>trim\<close>, and the call raises a TypeError (the message is the engine's).
\<close>

fun js_trim :: "string \<Rightarrow> jsval \<Rightarrow> error + string" where
  "js_trim f (JStr s) = Inr (trim s)"
| "js_trim f JUndefined = Inl (TypeError ''Cannot read properties of undefined (reading 'trim')'')"
| "js_trim f JNull = Inl (TypeError ''Cannot read properties of null (reading 'trim')'')"
| "js_trim f v = Inl (TypeError (f @ ''.trim is not a function''))"

text \<open>
  The handlers copy \<open>price\<close> from the body as it is. Both routes that store a price run
  the validation middleware first, so the value is a number when a handler reads it.
\<close>

fun num_of :: "jsval \<Rightarrow> jsnum" where
  "num_of (JNum n) = n"
| "num_of v = NaN"

text \<open>
  \<open>uuid\<close> is the string that the call \<open>uuidv4()\<close> returns in this request. The object
  literal evaluates its fields in order, so the first \<open>trim\<close> that fails is the error
  of the request, and nothing is pushed.
\<close>

definition createProduct :: "string \<Rightarrow> body \<Rightarrow> product list \<Rightarrow> outcome \<times> product list" where
  "createProduct uuid b ps =
     (let inStockIn = (case get_prop b ''inStock'' of JUndefined \<Rightarrow> JBool True | v \<Rightarrow> v)
      in case js_trim ''name'' (get_prop b ''name'') of
           Inl e \<Rightarrow> (Throw e, ps)
         | Inr n \<Rightarrow>
        (case js_trim ''description'' (get_prop b ''description'') of
           Inl e \<Rightarrow> (Throw e, ps)
         | Inr d \<Rightarrow>
        (case js_trim ''category'' (get_prop b ''category'') of
           Inl e \<Rightarrow> (Throw e, ps)
         | Inr c \<Rightarrow>
            (let newProduct =
                   \<lparr>pid = uuid, name = n, description = d,
                    price = num_of (get_prop b ''price''),
                    category = c, inStock = truthy inStockIn\<rparr>
             in (Respond (ProductData 201 newProduct), ps @ [newProduct])))))"

text \<open>The route: the validation middleware, then the handler.\<close>

definition postProducts :: "string \<Rightarrow> body \<Rightarrow> product list \<Rightarrow> outcome \<times> product list" where
  "postProducts uuid b ps =
     (case validateProductMiddleware b of
        Inl e \<Rightarrow> (Throw e, ps)
      | Inr b' \<Rightarrow> createProduct uuid b' ps)"

subsection \<open>PUT /api/products/:id\<close>

definition updateProduct :: "string \<Rightarrow> body \<Rightarrow> product list \<Rightarrow> outcome \<times> product list" where
  "updateProduct i b ps =
     (case findIndex (\<lambda>p. pid p = i) ps of
        None \<Rightarrow> (Throw (NotFoundError ''Product not found''), ps)
      | Some productIndex \<Rightarrow>
        (case js_trim ''name'' (get_prop b ''name'') of
           Inl e \<Rightarrow> (Throw e, ps)
         | Inr n \<Rightarrow>
        (case js_trim ''description'' (get_prop b ''description'') of
           Inl e \<Rightarrow> (Throw e, ps)
         | Inr d \<Rightarrow>
        (case js_trim ''category'' (get_prop b ''category'') of
           Inl e \<Rightarrow> (Throw e, ps)
         | Inr c \<Rightarrow>
            (let old = ps ! productIndex;
                 updated = old
                   \<lparr>name := n, description := d,
                    price := num_of (get_prop b ''price''),
                    category := c,
                    inStock := (case get_prop b ''inStock'' of
                                  JUndefined \<Rightarrow> inStock old
                                | v \<Rightarrow> truthy v)\<rparr>
             in (Respond (ProductData 200 updated), ps[productIndex := updated]))))))"

definition putProducts :: "string \<Rightarrow> body \<Rightarrow> product list \<Rightarrow> outcome \<times> product list" where
  "putProducts i b ps =
     (case validateProductMiddleware b of
        Inl e \<Rightarrow> (Throw e, ps)
      | Inr b' \<Rightarrow> updateProduct i b' ps)"

subsection \<open>DELETE /api/products/:id\<close>

definition deleteProduct :: "string \<Rightarrow> product list \<Rightarrow> outcome \<times> product list" where
  "deleteProduct i ps =
     (case findIndex (\<lambda>p. pid p = i) ps of
        None \<Rightarrow> (Throw (NotFoundError ''Product not found''), ps)
      | Some productIndex \<Rightarrow>
          (Respond (Message ''Product deleted successfully''), splice1 ps productIndex))"


section \<open>Sequences of writes\<close>

text \<open>
  The three routes that change the store, each with what the request carries. A
  \<open>Create\<close> also carries the string that \<open>uuidv4()\<close> returns while it is handled.
\<close>

datatype op = Create string body | Update string body | Delete string

fun exec :: "op \<Rightarrow> product list \<Rightarrow> product list" where
  "exec (Create uuid b) ps = snd (postProducts uuid b ps)"
| "exec (Update i b) ps = snd (putProducts i b ps)"
| "exec (Delete i) ps = snd (deleteProduct i ps)"

fun run :: "op list \<Rightarrow> product list \<Rightarrow> product list" where
  "run [] ps = ps"
| "run (x # xs) ps = run xs (exec x ps)"



section \<open>The application\<close>

text \<open>
  A request as Express hands it to the middleware: the method, \<open>req.originalUrl\<close>, the
  header \<open>x-api-key\<close> if there is one, the parsed query and the parsed body. Of the
  methods, the four that the server routes and one that it does not are modelled.
\<close>

datatype meth = GET | POST | PUT | DELETE | PATCH

record request =
  req_method :: meth
  originalUrl :: string
  apiKey :: "string option"
  query :: query
  reqBody :: body

subsection \<open>Paths\<close>

fun split_on :: "char \<Rightarrow> string \<Rightarrow> string list" where
  "split_on c [] = [[]]"
| "split_on c (x # xs) =
     (if x = c then [] # split_on c xs
      else (case split_on c xs of [] \<Rightarrow> [[x]] | s # ss \<Rightarrow> (x # s) # ss))"

text \<open>
  The segments of the path of a URL: the query string is cut off, the path is split at
  every slash, and one trailing slash is ignored (Express routes are not strict).
\<close>

definition segments :: "string \<Rightarrow> string list" where
  "segments u =
     (let parts = tl (split_on (CHR ''/'') (takeWhile (\<lambda>c. c \<noteq> CHR ''?'') u))
      in if parts \<noteq> [] \<and> last parts = [] then butlast parts else parts)"

text \<open>
  A route path is a list of literal segments and parameters. Literals match without
  regard to case; a parameter matches one segment that is not empty.
\<close>

datatype pat = Lit string | Param

fun match_path :: "pat list \<Rightarrow> string list \<Rightarrow> bool" where
  "match_path [] [] = True"
| "match_path (Lit l # pats) (s # segs) = (toLowerCase s = l \<and> match_path pats segs)"
| "match_path (Param # pats) (s # segs) = (s \<noteq> [] \<and> match_path pats segs)"
| "match_path pats segs = False"

text \<open>\<open>app.use(path, ...)\<close> matches every path that starts with the segments of \<open>path\<close>.\<close>

fun match_prefix :: "string list \<Rightarrow> string list \<Rightarrow> bool" where
  "match_prefix [] segs = True"
| "match_prefix (l # ls) [] = False"
| "match_prefix (l # ls) (s # segs) = (toLowerCase s = l \<and> match_prefix ls segs)"

definition route :: "meth \<Rightarrow> pat list \<Rightarrow> request \<Rightarrow> bool" where
  "route m pats req = (req_method req = m \<and> match_path pats (segments (originalUrl req)))"

text \<open>\<open>req.params.id\<close> on the routes \<open>/api/products/:id\<close>: the third segment.\<close>

definition params_id :: "request \<Rightarrow> string" where
  "params_id req = (case segments (originalUrl req) of a # b # i # rest \<Rightarrow> i | _ \<Rightarrow> [])"

subsection \<open>Middleware\<close>

type_synonym handler = "string \<Rightarrow> request \<Rightarrow> product list \<Rightarrow> outcome \<times> product list"

definition loggerMiddleware :: handler where
  "loggerMiddleware uuid req ps = (Next, ps)"

definition authMiddleware :: handler where
  "authMiddleware uuid req ps =
     (case apiKey req of
        None \<Rightarrow> (Throw (AuthenticationError
                  ''API key required. Please provide x-api-key in headers''), ps)
      | Some k \<Rightarrow>
          if k = []
          then (Throw (AuthenticationError
                  ''API key required. Please provide x-api-key in headers''), ps)
          else (Next, ps))"

text \<open>
  The error handler of the server: \<open>error.statusCode || 500\<close> and
  \<open>error.message || 'Internal Server Error'\<close>. (The \<open>stack\<close> field that it adds when
  \<open>NODE_ENV\<close> is \<open>development\<close> is left out.)
\<close>

definition errorHandler :: "error \<Rightarrow> response" where
  "errorHandler e =
     ErrorEnvelope (case statusCode e of None \<Rightarrow> 500 | Some c \<Rightarrow> if c = 0 then 500 else c)
       (if message e = [] then ''Internal Server Error'' else message e)"

definition notFoundHandler :: handler where
  "notFoundHandler uuid req ps =
     (Throw (NotFoundError (''Route '' @ originalUrl req @ '' not found'')), ps)"

subsection \<open>The middleware stack\<close>

text \<open>
  Express keeps the middleware and routes of an application in one list, in the order
  of the calls that registered them. A layer is either an ordinary one, with the test
  that says whether it applies to a request, or an error handler (a function of four
  arguments).
\<close>

datatype layer = Layer "request \<Rightarrow> bool" handler | ErrorLayer "error \<Rightarrow> response"

text \<open>
  What Express answers by itself when the list is exhausted: 404 when no layer
  answered, and for an error that no error handler took the status the error carries
  (500 if it carries none).
\<close>

definition finalStatus :: "error option \<Rightarrow> nat" where
  "finalStatus eo =
     (case eo of
        None \<Rightarrow> 404
      | Some e \<Rightarrow> (case statusCode e of
                     None \<Rightarrow> 500
                   | Some c \<Rightarrow> if 400 \<le> c \<and> c < 600 then c else 500))"

text \<open>
  Dispatch walks the list once, front to back. While no error is pending, error
  handlers are skipped and each matching layer runs; a layer that throws makes its
  error pending. While an error is pending, ordinary layers are skipped and the next
  error handler \<^emph>\<open>further down the list\<close> answers. Layers that were registered before the
  one that threw are never visited again.
\<close>

fun dispatch :: "layer list \<Rightarrow> error option \<Rightarrow> string \<Rightarrow> request \<Rightarrow> product list
                   \<Rightarrow> response \<times> product list" where
  "dispatch [] eo uuid req ps = (DefaultErrorPage (finalStatus eo), ps)"
| "dispatch (Layer m h # ls) None uuid req ps =
     (if m req
      then (case h uuid req ps of
              (Next, ps') \<Rightarrow> dispatch ls None uuid req ps'
            | (Respond r, ps') \<Rightarrow> (r, ps')
            | (Throw e, ps') \<Rightarrow> dispatch ls (Some e) uuid req ps')
      else dispatch ls None uuid req ps)"
| "dispatch (Layer m h # ls) (Some e) uuid req ps = dispatch ls (Some e) uuid req ps"
| "dispatch (ErrorLayer h # ls) None uuid req ps = dispatch ls None uuid req ps"
| "dispatch (ErrorLayer h # ls) (Some e) uuid req ps = (h e, ps)"

text \<open>
  The layers of the server, in the order in which the source registers them:
  \<open>bodyParser.json()\<close> (a request of the model already carries its parsed body, so
  the layer passes it on), the logger, the API-key check on \<open>/api/products\<close>, the eight
  routes, the error handler, and last the catch-all \<open>app.use('*', ...)\<close>. The two routes
  that write a payload are the validation middleware followed by their handler.
\<close>

definition stack :: "layer list" where
  "stack =
     [Layer (\<lambda>req. True) (\<lambda>uuid req ps. (Next, ps)),
      Layer (\<lambda>req. True) loggerMiddleware,
      Layer (\<lambda>req. match_prefix [''api'', ''products''] (segments (originalUrl req)))
        authMiddleware,
      Layer (route GET []) (\<lambda>uuid req ps. (Respond Welcome, ps)),
      Layer (route GET [Lit ''api'', Lit ''products''])
        (\<lambda>uuid req ps. getProducts (query req) ps),
      Layer (route GET [Lit ''api'', Lit ''products'', Lit ''search''])
        (\<lambda>uuid req ps. searchProducts (query req) ps),
      Layer (route GET [Lit ''api'', Lit ''products'', Lit ''stats''])
        (\<lambda>uuid req ps. getStats ps),
      Layer (route GET [Lit ''api'', Lit ''products'', Param])
        (\<lambda>uuid req ps. getProduct (params_id req) ps),
      Layer (route POST [Lit ''api'', Lit ''products''])
        (\<lambda>uuid req ps. postProducts uuid (reqBody req) ps),
      Layer (route PUT [Lit ''api'', Lit ''products'', Param])
        (\<lambda>uuid req ps. putProducts (params_id req) (reqBody req) ps),
      Layer (route DELETE [Lit ''api'', Lit ''products'', Param])
        (\<lambda>uuid req ps. deleteProduct (params_id req) ps),
      ErrorLayer errorHandler,
      Layer (\<lambda>req. True) notFoundHandler]"

definition app :: "string \<Rightarrow> request \<Rightarrow> product list \<Rightarrow> response \<times> product list" where
  "app uuid req ps = dispatch stack None uuid req ps"


section \<open>Validation\<close>

lemma name_bad_iff: "name_bad v \<longleftrightarrow> \<not> (\<exists>s. v = JStr s \<and> trim s \<noteq> [])"
  by (cases v) auto

lemma price_bad_iff: "falsy v \<or> price_bad v \<longleftrightarrow> \<not> (\<exists>n. v = JNum n \<and> num_gt0 n)"
proof (cases v)
  case (JNum n)
  then show ?thesis by (cases n) (auto simp: falsy_def)
qed (auto simp: falsy_def)



section \<open>Filtering\<close>






section \<open>Pagination\<close>









section \<open>Lookup by id\<close>

lemma findIndex_None: "findIndex P xs = None \<longleftrightarrow> (\<forall>x \<in> set xs. \<not> P x)"
  by (induction xs) auto

lemma findIndex_Some:
  "findIndex P xs = Some i \<Longrightarrow>
     i < length xs \<and> P (xs ! i) \<and> list_all (\<lambda>x. \<not> P x) (take i xs)"
proof (induction xs arbitrary: i)
  case Nil
  then show ?case by simp
next
  case (Cons x xs)
  then show ?case by (cases "P x") auto
qed

lemma findIndex_split:
  assumes "findIndex P xs = Some i"
  shows "xs = take i xs @ xs ! i # drop (Suc i) xs"
  using findIndex_Some [OF assms] by (simp add: id_take_nth_drop)

lemma find_first:
  "list_all (\<lambda>x. \<not> P x) xs \<Longrightarrow> P y \<Longrightarrow> find P (xs @ y # ys) = Some y"
  by (induction xs) auto

text \<open>
  The definitions that a run of the server on a concrete request unfolds.
\<close>

lemmas eval_defs = app_def stack_def route_def segments_def loggerMiddleware_def
  notFoundHandler_def finalStatus_def toLowerCase_def lower_char_def authMiddleware_def
  params_id_def errorHandler_def postProducts_def putProducts_def
  validateProductMiddleware_def get_prop_def falsy_def trim_def is_ws_def
  createProduct_def updateProduct_def deleteProduct_def splice1_def getProduct_def Let_def

section \<open>Deleting\<close>

text \<open>
  C7. When no product has the requested id, the delete handler throws NotFoundError
  with the message "Product not found" (which the error handler turns into status
  404) and the store stays as it is. Otherwise the store splits around the first
  product with that id, the handler answers with the success message (an envelope
  with no data field), and the store is left with the products before and after it,
  in their order. When ids are distinct this is the store without the products of
  that id.
\<close>

theorem delete_spec:
  "(i \<notin> set (map pid ps) \<longrightarrow>
      deleteProduct i ps = (Throw (NotFoundError ''Product not found''), ps)
      \<and> errorHandler (NotFoundError ''Product not found'') = ErrorEnvelope 404 ''Product not found'')
   \<and> (i \<in> set (map pid ps) \<longrightarrow>
        (\<exists>xs p ys. ps = xs @ p # ys \<and> pid p = i \<and> i \<notin> set (map pid xs)
           \<and> deleteProduct i ps = (Respond (Message ''Product deleted successfully''), xs @ ys)))
   \<and> (i \<in> set (map pid ps) \<and> distinct (map pid ps) \<longrightarrow>
        snd (deleteProduct i ps) = filter (\<lambda>p. pid p \<noteq> i) ps)"
proof (intro conjI impI)
  assume "i \<notin> set (map pid ps)"
  then have "findIndex (\<lambda>p. pid p = i) ps = None" by (auto simp: findIndex_None)
  then show "deleteProduct i ps = (Throw (NotFoundError ''Product not found''), ps)"
    by (simp add: deleteProduct_def)
next
  show "errorHandler (NotFoundError ''Product not found'') = ErrorEnvelope 404 ''Product not found''"
    by (simp add: errorHandler_def)
next
  assume "i \<in> set (map pid ps)"
  then obtain k where k: "findIndex (\<lambda>p. pid p = i) ps = Some k"
    by (cases "findIndex (\<lambda>p. pid p = i) ps") (auto simp: findIndex_None)
  from findIndex_Some [OF k] have
    "k < length ps" "pid (ps ! k) = i" "i \<notin> set (map pid (take k ps))"
    by (auto simp: list_all_iff)
  moreover have "ps = take k ps @ ps ! k # drop (Suc k) ps" by (rule findIndex_split [OF k])
  moreover have "deleteProduct i ps =
      (Respond (Message ''Product deleted successfully''), take k ps @ drop (Suc k) ps)"
    by (simp add: deleteProduct_def k splice1_def)
  ultimately show "\<exists>xs p ys. ps = xs @ p # ys \<and> pid p = i \<and> i \<notin> set (map pid xs)
           \<and> deleteProduct i ps = (Respond (Message ''Product deleted successfully''), xs @ ys)"
    by blast
next
  assume a: "i \<in> set (map pid ps) \<and> distinct (map pid ps)"
  then obtain k where k: "findIndex (\<lambda>p. pid p = i) ps = Some k"
    by (cases "findIndex (\<lambda>p. pid p = i) ps") (auto simp: findIndex_None)
  from findIndex_Some [OF k] have kk: "k < length ps" "pid (ps ! k) = i" by auto
  have sp: "ps = take k ps @ ps ! k # drop (Suc k) ps" by (rule findIndex_split [OF k])
  have "distinct (map pid (take k ps @ ps ! k # drop (Suc k) ps))" using a sp by simp
  then have "i \<notin> set (map pid (take k ps))" "i \<notin> set (map pid (drop (Suc k) ps))"
    using kk(2) by auto
  then have "filter (\<lambda>p. pid p \<noteq> i) (take k ps) = take k ps"
            "filter (\<lambda>p. pid p \<noteq> i) (drop (Suc k) ps) = drop (Suc k) ps"
    by (auto simp: filter_id_conv)
  then have "filter (\<lambda>p. pid p \<noteq> i) (take k ps @ ps ! k # drop (Suc k) ps)
               = take k ps @ drop (Suc k) ps"
    using kk(2) by simp
  then have "filter (\<lambda>p. pid p \<noteq> i) ps = take k ps @ drop (Suc k) ps"
    using sp by simp
  then show "snd (deleteProduct i ps) = filter (\<lambda>p. pid p \<noteq> i) ps"
    by (simp add: deleteProduct_def k splice1_def)
qed

text \<open>Deleting product 2 of the seeded store, and deleting an id that is not there.\<close>

theorem delete_spec_witness:
  "deleteProduct ''2'' products =
     (Respond (Message ''Product deleted successfully''),
      [\<lparr>pid = ''1'', name = ''Laptop'',
        description = ''High-performance laptop with 16GB RAM'',
        price = Num 1200, category = ''electronics'', inStock = True\<rparr>,
       \<lparr>pid = ''3'', name = ''Coffee Maker'',
        description = ''Programmable coffee maker with timer'',
        price = Num 50, category = ''kitchen'', inStock = False\<rparr>])
   \<and> deleteProduct ''9'' products = (Throw (NotFoundError ''Product not found''), products)"
  using delete_spec [of "''2''" products] delete_spec [of "''9''" products]
  by (simp add: products_def deleteProduct_def splice1_def)

section \<open>Handlers that only read\<close>

text \<open>
  Dispatch leaves the store alone when every layer that applies to the request does.
\<close>

lemma dispatch_preserves:
  "list_all (\<lambda>l. case l of Layer m h \<Rightarrow> \<not> m req \<or> snd (h uuid req ps) = ps
                          | ErrorLayer h \<Rightarrow> True) ls
   \<Longrightarrow> snd (dispatch ls eo uuid req ps) = ps"
proof (induction ls arbitrary: eo)
  case Nil
  then show ?case by simp
next
  case (Cons l ls)
  show ?case
  proof (cases l)
    case (Layer m h)
    show ?thesis
    proof (cases eo)
      case None
      from Cons.prems Layer have h: "\<not> m req \<or> snd (h uuid req ps) = ps" by simp
      from Cons.prems have ih: "\<And>eo. snd (dispatch ls eo uuid req ps) = ps"
        using Cons.IH by simp
      show ?thesis
      proof (cases "m req")
        case True
        with h obtain oc where hh: "h uuid req ps = (oc, ps)" by (cases "h uuid req ps") auto
        show ?thesis using Layer None True hh ih by (cases oc) simp_all
      next
        case False
        then show ?thesis using Layer None ih by simp
      qed
    next
      case (Some e)
      then show ?thesis using Layer Cons by simp
    qed
  next
    case (ErrorLayer h)
    then show ?thesis using Cons by (cases eo) simp_all
  qed
qed

lemma read_handlers:
  "snd (getProducts q ps) = ps" "snd (searchProducts q ps) = ps"
  "snd (getStats ps) = ps" "snd (getProduct i ps) = ps"
  by (simp_all add: getProducts_def Let_def searchProducts_def getStats_def getProduct_def
        split: option.splits)

text \<open>
  C10. The list, search, stats and get-by-id handlers return the store they were
  given, whatever the query, the id and the store, also when they throw. So does the
  whole application on every GET request.
\<close>

theorem read_only:
  "snd (getProducts q ps) = ps \<and> snd (searchProducts q ps) = ps
   \<and> snd (getStats ps) = ps \<and> snd (getProduct i ps) = ps
   \<and> (req_method req = GET \<longrightarrow> snd (app uuid req ps) = ps)"
proof -
  have "snd (app uuid req ps) = ps" if "req_method req = GET"
    unfolding app_def
    by (rule dispatch_preserves)
       (simp add: stack_def that route_def read_handlers loggerMiddleware_def
          authMiddleware_def notFoundHandler_def split: option.splits)
  then show ?thesis by (simp add: read_handlers)
qed

text \<open>\<open>GET /api/products/2\<close> on the seeded store.\<close>

theorem read_only_witness:
  "req_method \<lparr>req_method = GET, originalUrl = ''/api/products/2'', apiKey = Some ''k'',
                query = [], reqBody = []\<rparr> = GET
   \<and> app ''u'' \<lparr>req_method = GET, originalUrl = ''/api/products/2'', apiKey = Some ''k'',
                query = [], reqBody = []\<rparr> products
     = (ProductData 200 \<lparr>pid = ''2'', name = ''Smartphone'',
          description = ''Latest model with 128GB storage'',
          price = Num 800, category = ''electronics'', inStock = True\<rparr>, products)"
  using read_only [of "[]" products "''2''"
      "\<lparr>req_method = GET, originalUrl = ''/api/products/2'', apiKey = Some ''k'',
        query = [], reqBody = []\<rparr>" "''u''"]
  by (simp add: eval_defs products_def)

section \<open>The store invariant\<close>

lemma validated_fields:
  assumes "validateProductMiddleware b = Inr b'"
  shows "b' = b"
    and "\<exists>s. get_prop b ''name'' = JStr s \<and> trim s \<noteq> []"
    and "\<exists>n. get_prop b ''price'' = JNum n \<and> num_gt0 n"
    and "truthy (get_prop b ''description'')" and "truthy (get_prop b ''category'')"
proof -
  have nothrow: "\<not> (\<exists>m. validateProductMiddleware b = Inl (ValidationError m))"
    using assms by simp
  have 1: "\<not> name_bad (get_prop b ''name'')"
    and 2: "\<not> (falsy (get_prop b ''price'') \<or> price_bad (get_prop b ''price''))"
    and 3: "\<not> falsy (get_prop b ''description'')" "\<not> falsy (get_prop b ''category'')"
    using assms by (auto simp: validateProductMiddleware_def Let_def split: if_splits)
  show "b' = b" using assms by (auto simp: validateProductMiddleware_def Let_def split: if_splits)
  show "\<exists>s. get_prop b ''name'' = JStr s \<and> trim s \<noteq> []" using 1 by (simp add: name_bad_iff)
  show "\<exists>n. get_prop b ''price'' = JNum n \<and> num_gt0 n" using 2 by (simp add: price_bad_iff)
  show "truthy (get_prop b ''description'')" "truthy (get_prop b ''category'')"
    using 3 by (simp_all add: falsy_def)
qed

lemma create_cases:
  "createProduct uuid b ps = (Throw e, ps') \<Longrightarrow> ps' = ps"
  by (auto simp: createProduct_def Let_def split: sum.splits)














text \<open>A create, an update and a delete on the seeded store.\<close>

lemma run_example:
  "run [Create ''u1'' [(''name'', JStr ''Pen''), (''description'', JStr ''Blue''),
                       (''price'', JNum (Num 2)), (''category'', JStr ''office'')],
        Update ''2'' [(''name'', JStr ''Phone''), (''description'', JStr ''New''),
                      (''price'', JNum (Num 700)), (''category'', JStr ''electronics''),
                      (''inStock'', JBool False)],
        Delete ''1''] products
   = [\<lparr>pid = ''2'', name = ''Phone'', description = ''New'', price = Num 700,
        category = ''electronics'', inStock = False\<rparr>,
      \<lparr>pid = ''3'', name = ''Coffee Maker'',
        description = ''Programmable coffee maker with timer'',
        price = Num 50, category = ''kitchen'', inStock = False\<rparr>,
      \<lparr>pid = ''u1'', name = ''Pen'', description = ''Blue'', price = Num 2,
        category = ''office'', inStock = True\<rparr>]"
  by (simp add: eval_defs products_def)


section \<open>Creating\<close>

text \<open>
  A payload that passed validation and whose description and category are strings is
  stored under the generated id, with name, description and category trimmed and the
  price as given; \<open>inStock\<close> is true when the payload has none and the truth value of
  what it has otherwise. The product is appended, the answer is 201 with it, and a
  get-by-id with a fresh id finds it.
\<close>

lemma create_spec:
  assumes ok: "validateProductMiddleware b = Inr b"
      and d: "get_prop b ''description'' = JStr d"
      and c: "get_prop b ''category'' = JStr c"
      and fresh: "uuid \<notin> pid ` set ps"
  shows "\<exists>s n p. get_prop b ''name'' = JStr s \<and> get_prop b ''price'' = JNum n \<and> num_gt0 n
           \<and> p = \<lparr>pid = uuid, name = trim s, description = trim d, price = n,
                  category = trim c,
                  inStock = (case get_prop b ''inStock'' of JUndefined \<Rightarrow> True | v \<Rightarrow> truthy v)\<rparr>
           \<and> postProducts uuid b ps = (Respond (ProductData 201 p), ps @ [p])
           \<and> getProduct uuid (ps @ [p]) = (Respond (ProductData 200 p), ps @ [p])"
proof -
  from validated_fields(2,3) [OF ok] obtain s n where
    s: "get_prop b ''name'' = JStr s" and n: "get_prop b ''price'' = JNum n" "num_gt0 n"
    by blast
  define p where "p = \<lparr>pid = uuid, name = trim s, description = trim d, price = n,
                  category = trim c,
                  inStock = (case get_prop b ''inStock'' of JUndefined \<Rightarrow> True | v \<Rightarrow> truthy v)\<rparr>"
  have i: "truthy (case get_prop b ''inStock'' of JUndefined \<Rightarrow> JBool True | v \<Rightarrow> v)
         = (case get_prop b ''inStock'' of JUndefined \<Rightarrow> True | v \<Rightarrow> truthy v)"
    by (cases "get_prop b ''inStock''") simp_all
  have post: "postProducts uuid b ps = (Respond (ProductData 201 p), ps @ [p])"
    by (simp add: postProducts_def ok createProduct_def Let_def s d c n i p_def)
  have "list_all (\<lambda>x. \<not> pid x = uuid) ps" using fresh by (auto simp: list_all_iff)
  then have "find (\<lambda>x. pid x = uuid) (ps @ p # []) = Some p"
    by (rule find_first) (simp add: p_def)
  then have get: "getProduct uuid (ps @ [p]) = (Respond (ProductData 200 p), ps @ [p])"
    by (simp add: getProduct_def)
  show ?thesis using s n post get p_def by blast
qed

text \<open>
  C5. The validation middleware tests the type of name and of price only. A payload
  whose description is the number 5 passes it, and \<open>description.trim()\<close> in the create
  handler then raises a TypeError: nothing is stored, and the error handler answers
  with status 500 instead of 201.
\<close>

theorem create_throws_on_number_description:
  "validateProductMiddleware
     [(''name'', JStr ''Pen''), (''description'', JNum (Num 5)),
      (''price'', JNum (Num 2)), (''category'', JStr ''office'')]
   = Inr [(''name'', JStr ''Pen''), (''description'', JNum (Num 5)),
          (''price'', JNum (Num 2)), (''category'', JStr ''office'')]
   \<and> postProducts ''u''
        [(''name'', JStr ''Pen''), (''description'', JNum (Num 5)),
         (''price'', JNum (Num 2)), (''category'', JStr ''office'')] products
      = (Throw (TypeError ''description.trim is not a function''), products)
   \<and> app ''u''
        \<lparr>req_method = POST, originalUrl = ''/api/products'', apiKey = Some ''k'', query = [],
         reqBody = [(''name'', JStr ''Pen''), (''description'', JNum (Num 5)),
                    (''price'', JNum (Num 2)), (''category'', JStr ''office'')]\<rparr> products
      = (ErrorEnvelope 500 ''description.trim is not a function'', products)"
  by (simp add: eval_defs)

section \<open>Updating\<close>

text \<open>
  For a payload that passed validation and whose description and category are
  strings: an unknown id gives NotFoundError and the store stays as it is; otherwise
  the first product with the id is replaced by one with the same id, the trimmed
  name, description and category, the given price, and \<open>inStock\<close> changed only when the
  payload has one. The products around it stay.
\<close>

lemma update_spec:
  assumes ok: "validateProductMiddleware b = Inr b"
      and d: "get_prop b ''description'' = JStr d"
      and c: "get_prop b ''category'' = JStr c"
  shows "(i \<notin> pid ` set ps \<longrightarrow>
            putProducts i b ps = (Throw (NotFoundError ''Product not found''), ps))
       \<and> (i \<in> pid ` set ps \<longrightarrow>
            (\<exists>s n xs old ys new. get_prop b ''name'' = JStr s \<and> get_prop b ''price'' = JNum n
               \<and> ps = xs @ old # ys \<and> pid old = i \<and> i \<notin> pid ` set xs
               \<and> new = \<lparr>pid = pid old, name = trim s, description = trim d, price = n,
                        category = trim c,
                        inStock = (case get_prop b ''inStock'' of
                                     JUndefined \<Rightarrow> inStock old | v \<Rightarrow> truthy v)\<rparr>
               \<and> putProducts i b ps = (Respond (ProductData 200 new), xs @ new # ys)))"
proof (intro conjI impI)
  assume "i \<notin> pid ` set ps"
  then have "findIndex (\<lambda>p. pid p = i) ps = None" by (auto simp: findIndex_None)
  then show "putProducts i b ps = (Throw (NotFoundError ''Product not found''), ps)"
    by (simp add: putProducts_def ok updateProduct_def)
next
  assume "i \<in> pid ` set ps"
  then obtain k where k: "findIndex (\<lambda>p. pid p = i) ps = Some k"
    by (cases "findIndex (\<lambda>p. pid p = i) ps") (auto simp: findIndex_None)
  from validated_fields(2,3) [OF ok] obtain s n where
    s: "get_prop b ''name'' = JStr s" and n: "get_prop b ''price'' = JNum n"
    by blast
  define old where "old = ps ! k"
  define new where "new = \<lparr>pid = pid old, name = trim s, description = trim d, price = n,
                        category = trim c,
                        inStock = (case get_prop b ''inStock'' of
                                     JUndefined \<Rightarrow> inStock old | v \<Rightarrow> truthy v)\<rparr>"
  from findIndex_Some [OF k] have kk: "k < length ps" "pid old = i" "i \<notin> pid ` set (take k ps)"
    by (auto simp: list_all_iff old_def)
  have sp: "ps = take k ps @ old # drop (Suc k) ps"
    unfolding old_def by (rule findIndex_split [OF k])
  have upd: "ps[k := new] = take k ps @ new # drop (Suc k) ps"
    using kk(1) by (simp add: upd_conv_take_nth_drop)
  have rec: "old\<lparr>name := trim s, description := trim d, price := n, category := trim c,
               inStock := (case get_prop b ''inStock'' of
                                     JUndefined \<Rightarrow> inStock old | v \<Rightarrow> truthy v)\<rparr> = new"
    by (cases old) (simp add: new_def)
  have "putProducts i b ps = (Respond (ProductData 200 new), ps[k := new])"
    by (simp add: putProducts_def ok updateProduct_def k Let_def s d c n old_def [symmetric] rec)
  then have "putProducts i b ps = (Respond (ProductData 200 new), take k ps @ new # drop (Suc k) ps)"
    using upd by simp
  then show "\<exists>s n xs old ys new. get_prop b ''name'' = JStr s \<and> get_prop b ''price'' = JNum n
               \<and> ps = xs @ old # ys \<and> pid old = i \<and> i \<notin> pid ` set xs
               \<and> new = \<lparr>pid = pid old, name = trim s, description = trim d, price = n,
                        category = trim c,
                        inStock = (case get_prop b ''inStock'' of
                                     JUndefined \<Rightarrow> inStock old | v \<Rightarrow> truthy v)\<rparr>
               \<and> putProducts i b ps = (Respond (ProductData 200 new), xs @ new # ys)"
    using s n sp kk new_def by blast
qed

text \<open>
  C6. A payload whose category is the number 7 passes the validation middleware, and
  \<open>category.trim()\<close> in the update handler then raises a TypeError: the product is not
  updated, and the error handler answers with status 500 instead of 200.
\<close>

theorem update_throws_on_number_category:
  "validateProductMiddleware
     [(''name'', JStr ''Pen''), (''description'', JStr ''Blue''),
      (''price'', JNum (Num 2)), (''category'', JNum (Num 7))]
   = Inr [(''name'', JStr ''Pen''), (''description'', JStr ''Blue''),
          (''price'', JNum (Num 2)), (''category'', JNum (Num 7))]
   \<and> putProducts ''1''
        [(''name'', JStr ''Pen''), (''description'', JStr ''Blue''),
         (''price'', JNum (Num 2)), (''category'', JNum (Num 7))] products
      = (Throw (TypeError ''category.trim is not a function''), products)
   \<and> app ''u''
        \<lparr>req_method = PUT, originalUrl = ''/api/products/1'', apiKey = Some ''k'', query = [],
         reqBody = [(''name'', JStr ''Pen''), (''description'', JStr ''Blue''),
                    (''price'', JNum (Num 2)), (''category'', JNum (Num 7))]\<rparr> products
      = (ErrorEnvelope 500 ''category.trim is not a function'', products)"
  by (simp add: eval_defs products_def)

section \<open>Statistics\<close>

lemma map_of_set_own: "map_of (set_own obj k v) = (map_of obj)(k \<mapsto> v)"
  by (induction obj k v rule: set_own.induct) auto

lemma count_category_plain:
  assumes inv: "\<forall>k. map_of obj k = (if k \<in> set cs then Some (Num (of_nat (count_list cs k))) else None)"
      and c: "c \<notin> set object_prototype_keys"
  shows "map_of (count_category obj c) k
       = (if k \<in> set (cs @ [c]) then Some (Num (of_nat (count_list (cs @ [c]) k))) else None)"
proof (cases "c \<in> set cs")
  case True
  then have pos: "0 < count_list cs c" using count_list_0_iff [of cs c] by simp
  have v: "map_of obj c = Some (Num (of_nat (count_list cs c)))" using inv True by simp
  have "count_category obj c = set_own obj c (Num (of_nat (count_list cs c) + 1))"
    using pos by (simp add: count_category_def v)
  then show ?thesis using inv True by (auto simp: map_of_set_own)
next
  case False
  then have "map_of obj c = None" using inv by simp
  then have "count_category obj c = set_own obj c (Num 1)"
    using c by (simp add: count_category_def)
  then show ?thesis using inv False by (auto simp: map_of_set_own)
qed

lemma categories_counts:
  "set cs \<inter> set object_prototype_keys = {} \<Longrightarrow>
   map_of (foldl count_category [] cs) k
     = (if k \<in> set cs then Some (Num (of_nat (count_list cs k))) else None)"
proof (induction cs arbitrary: k rule: rev_induct)
  case Nil
  then show ?case by simp
next
  case (snoc c cs)
  have 1: "\<forall>k. map_of (foldl count_category [] cs) k
     = (if k \<in> set cs then Some (Num (of_nat (count_list cs k))) else None)"
    using snoc by auto
  have 2: "c \<notin> set object_prototype_keys" using snoc.prems by auto
  show ?case using count_category_plain [OF 1 2] by simp
qed

lemma foldl_max_Num:
  "foldl num_max2 (Num a) (map Num rs) = Num (fold max rs a)"
  by (induction rs arbitrary: a) (simp_all add: max.commute)

lemma foldl_min_Num:
  "foldl num_min2 (Num a) (map Num rs) = Num (fold min rs a)"
  by (induction rs arbitrary: a) (simp_all add: min.commute)

lemma math_max_Num: "math_max (map Num (r # rs)) = Num (Max (set (r # rs)))"
  unfolding math_max_def Max.set_eq_fold by (simp add: foldl_max_Num)

lemma math_min_Num: "math_min (map Num (r # rs)) = Num (Min (set (r # rs)))"
  unfolding math_min_def Min.set_eq_fold by (simp add: foldl_min_Num)

lemma foldl_sum_Num:
  "map price ps = map Num rs \<Longrightarrow>
   foldl (\<lambda>sum p. num_add sum (price p)) (Num a) ps = Num (a + sum_list rs)"
proof (induction ps arbitrary: a rs)
  case Nil
  then show ?case by simp
next
  case (Cons p ps)
  then obtain r rs' where rs: "rs = r # rs'" "price p = Num r" "map price ps = map Num rs'"
    by (cases rs) auto
  show ?case using Cons.IH [OF rs(3)] rs by (simp add: add.assoc)
qed

text \<open>
  On a store that is not empty, whose prices are finite and whose categories are not
  names of properties of \<open>Object.prototype\<close>: the totals are the lengths, every category
  of the store is mapped to the number of its products, and the price statistics are
  the maximum, the minimum and the sum divided by the number of products.
\<close>

lemma stats_spec:
  assumes prices: "map price ps = map Num rs" and ne: "ps \<noteq> []"
      and cats: "set (map category ps) \<inter> set object_prototype_keys = {}"
  shows "\<exists>st. getStats ps = (Respond (StatsData st), ps)
           \<and> totalProducts st = length ps
           \<and> totalInStock st = length (filter inStock ps)
           \<and> totalOutOfStock st = length ps - length (filter inStock ps)
           \<and> (\<forall>k. map_of (categories st) k
                 = (if k \<in> set (map category ps)
                    then Some (Num (of_nat (length (filter (\<lambda>p. category p = k) ps))))
                    else None))
           \<and> highest (priceStats st) = Num (Max (set rs))
           \<and> lowest (priceStats st) = Num (Min (set rs))
           \<and> average (priceStats st) = Num (sum_list rs / of_nat (length ps))"
proof -
  from prices ne obtain r rs' where rs: "rs = r # rs'" by (cases rs) auto
  have len: "(of_nat (length ps) :: rat) \<noteq> 0" using ne by simp
  have out: "length (filter (\<lambda>p. \<not> inStock p) ps) = length ps - length (filter inStock ps)"
    using sum_length_filter_compl [of inStock ps] by simp
  have cl: "\<And>k. count_list (map category ps) k = length (filter (\<lambda>p. category p = k) ps)"
    by (induction ps) auto
  have hi: "math_max (map price ps) = Num (Max (set rs))"
    unfolding prices rs by (rule math_max_Num)
  have lo: "math_min (map price ps) = Num (Min (set rs))"
    unfolding prices rs by (rule math_min_Num)
  have av: "num_div (foldl (\<lambda>sum p. num_add sum (price p)) (Num 0) ps) (Num (of_nat (length ps)))
        = Num (sum_list rs / of_nat (length ps))"
    using len by (simp add: foldl_sum_Num [OF prices])
  show ?thesis
    unfolding getStats_def
    by (rule exI, intro conjI, rule refl)
       (simp_all add: out hi lo av categories_counts [OF cats] cl)
qed

text \<open>The seeded store, and the empty store (where nothing guards the division).\<close>

lemma stats_seed:
  "getStats products =
     (Respond (StatsData
        \<lparr>totalProducts = 3, totalInStock = 2, totalOutOfStock = 1,
         categories = [(''electronics'', Num 2), (''kitchen'', Num 1)],
         priceStats = \<lparr>highest = Num 1200, lowest = Num 50, average = Num (2050 / 3)\<rparr>\<rparr>),
      products)"
  by (simp add: getStats_def products_def count_category_def object_prototype_keys_def
        math_max_def math_min_def)

lemma stats_empty:
  "getStats [] =
     (Respond (StatsData
        \<lparr>totalProducts = 0, totalInStock = 0, totalOutOfStock = 0, categories = [],
         priceStats = \<lparr>highest = NInf, lowest = PInf, average = NaN\<rparr>\<rparr>), [])"
  by (simp add: getStats_def math_max_def math_min_def)

text \<open>
  C8. The category counts are kept in an object literal, which inherits the
  properties of \<open>Object.prototype\<close>. A product of category \<open>constructor\<close> can be created
  through the API; on the seeded store with such a product added, the stats handler
  reports NaN for that category, not the count 1.
\<close>

theorem stats_constructor_category:
  "postProducts ''u''
     [(''name'', JStr ''Pen''), (''description'', JStr ''Blue''),
      (''price'', JNum (Num 2)), (''category'', JStr ''constructor'')] products
   = (Respond (ProductData 201
        \<lparr>pid = ''u'', name = ''Pen'', description = ''Blue'', price = Num 2,
         category = ''constructor'', inStock = True\<rparr>),
      products @
      [\<lparr>pid = ''u'', name = ''Pen'', description = ''Blue'', price = Num 2,
        category = ''constructor'', inStock = True\<rparr>])
   \<and> getStats (products @
       [\<lparr>pid = ''u'', name = ''Pen'', description = ''Blue'', price = Num 2,
         category = ''constructor'', inStock = True\<rparr>])
   = (Respond (StatsData
        \<lparr>totalProducts = 4, totalInStock = 3, totalOutOfStock = 1,
         categories = [(''electronics'', Num 2), (''kitchen'', Num 1), (''constructor'', NaN)],
         priceStats = \<lparr>highest = Num 1200, lowest = Num 2, average = Num 513\<rparr>\<rparr>),
      products @
      [\<lparr>pid = ''u'', name = ''Pen'', description = ''Blue'', price = Num 2,
        category = ''constructor'', inStock = True\<rparr>])"
  by (simp add: eval_defs products_def getStats_def count_category_def
        object_prototype_keys_def math_max_def math_min_def)

section \<open>Requests that match no route\<close>

text \<open>
  A request that matches none of the eight routes, and that carries an API key if its
  path is under \<open>/api/products\<close>, reaches the last layer. The NotFoundError thrown there
  finds no error handler further down the list, so Express answers with its own page.
\<close>

lemma unmatched_route_general:
  assumes "\<not> route GET [] req"
      and "\<not> route GET [Lit ''api'', Lit ''products''] req"
      and "\<not> route GET [Lit ''api'', Lit ''products'', Lit ''search''] req"
      and "\<not> route GET [Lit ''api'', Lit ''products'', Lit ''stats''] req"
      and "\<not> route GET [Lit ''api'', Lit ''products'', Param] req"
      and "\<not> route POST [Lit ''api'', Lit ''products''] req"
      and "\<not> route PUT [Lit ''api'', Lit ''products'', Param] req"
      and "\<not> route DELETE [Lit ''api'', Lit ''products'', Param] req"
      and "match_prefix [''api'', ''products''] (segments (originalUrl req))
             \<longrightarrow> (\<exists>k. apiKey req = Some k \<and> k \<noteq> [])"
  shows "app uuid req ps = (DefaultErrorPage 404, ps)"
proof (cases "match_prefix [''api'', ''products''] (segments (originalUrl req))")
  case True
  with assms(9) obtain k where "apiKey req = Some k" "k \<noteq> []" by blast
  then show ?thesis
    using assms(1-8) True
    by (simp add: app_def stack_def loggerMiddleware_def authMiddleware_def
          notFoundHandler_def finalStatus_def)
next
  case False
  then show ?thesis
    using assms(1-8)
    by (simp add: app_def stack_def loggerMiddleware_def notFoundHandler_def finalStatus_def)
qed

text \<open>
  C9. The error handler is registered before the catch-all layer that throws the
  NotFoundError for an unmatched path, so that error never reaches it: for
  \<open>GET /nope\<close> the answer has status 404, but it is the default page of Express and not
  the JSON envelope, which the error handler would have written had the error
  reached it.
\<close>

theorem unmatched_route_default_page:
  "app ''u'' \<lparr>req_method = GET, originalUrl = ''/nope'', apiKey = None, query = [],
              reqBody = []\<rparr> products
     = (DefaultErrorPage 404, products)
   \<and> errorHandler (NotFoundError ''Route /nope not found'')
     = ErrorEnvelope 404 ''Route /nope not found''"
  by (simp add: eval_defs)

end
